theory Spec2Isabelle
  imports Complex_Main "HOL-Library.Sublist"
begin

section \<open>Python values handled by the two Lambda handlers\<close>

text \<open>
  The event that API Gateway hands to a handler is a decoded JSON document, and so is
  everything \<^verbatim>\<open>json.loads\<close> returns. A dict keeps its items in insertion order;
  its keys are distinct, and lookup goes through \<open>map_of\<close>. Floats are represented by
  their rational value (the non-finite ones that \<^verbatim>\<open>json.loads\<close> accepts as an extension
  have no representative).
\<close>

datatype json =
    JNull
  | JBool bool
  | JInt int
  | JFloat rat
  | JStr string
  | JArr "json list"
  | JObj "(string \<times> json) list"

type_synonym pydict = "(string \<times> json) list"

text \<open>\<^verbatim>\<open>d.get(key, default)\<close>: the default is used only when the key is absent.\<close>

definition dict_get :: "pydict \<Rightarrow> string \<Rightarrow> json \<Rightarrow> json" where
  "dict_get d k dflt = (case map_of d k of Some v \<Rightarrow> v | None \<Rightarrow> dflt)"

text \<open>Truth value of an object, as tested by \<^verbatim>\<open>if x\<close> and \<^verbatim>\<open>not x\<close>.\<close>

fun truthy :: "json \<Rightarrow> bool" where
  "truthy JNull = False"
| "truthy (JBool b) = b"
| "truthy (JInt n) = (n \<noteq> 0)"
| "truthy (JFloat x) = (x \<noteq> 0)"
| "truthy (JStr s) = (s \<noteq> [])"
| "truthy (JArr xs) = (xs \<noteq> [])"
| "truthy (JObj kvs) = (kvs \<noteq> [])"

fun type_name :: "json \<Rightarrow> string" where
  "type_name JNull = ''NoneType''"
| "type_name (JBool b) = ''bool''"
| "type_name (JInt n) = ''int''"
| "type_name (JFloat x) = ''float''"
| "type_name (JStr s) = ''str''"
| "type_name (JArr xs) = ''list''"
| "type_name (JObj kvs) = ''dict''"

text \<open>
  The exceptions that the handlers leave uncaught, each with its message: the
  \<^verbatim>\<open>AttributeError\<close> of a method lookup, and what \<^verbatim>\<open>json.loads\<close> raises besides
  \<^verbatim>\<open>JSONDecodeError\<close> (\<^verbatim>\<open>RecursionError\<close> on a text nested too deeply,
  \<^verbatim>\<open>ValueError\<close> on an integer literal beyond the digit limit, or an exception of
  another class, kept with the name of its class).
\<close>

datatype py_exception =
    AttributeError string
  | RecursionError string
  | ValueError string
  | OtherError string string

text \<open>
  \<^verbatim>\<open>x.get(key, default)\<close> on an arbitrary object: only a dict has the method, on every
  other value the attribute lookup raises.
\<close>

definition obj_get :: "json \<Rightarrow> string \<Rightarrow> json \<Rightarrow> py_exception + json" where
  "obj_get x k dflt =
     (case x of
        JObj d \<Rightarrow> Inr (dict_get d k dflt)
      | _ \<Rightarrow> Inl (AttributeError
                 ([CHR 0x27] @ type_name x @ [CHR 0x27] @ '' object has no attribute ''
                  @ [CHR 0x27] @ ''get'' @ [CHR 0x27])))"

text \<open>
  The text produced by \<^verbatim>\<open>json.dumps(value, indent=...)\<close>, kept as the value it
  serialises together with the indent. Every \<open>json\<close> value is serialisable, so the
  \<^verbatim>\<open>default=str\<close> fallback of some call sites is never invoked on this data.
\<close>

datatype json_text = Json_dumps json "nat option"

record response =
  statusCode :: int
  headers :: "(string \<times> string) list"
  body :: json_text

text \<open>
  The Lambda context. \<open>aws_request_id\<close> is \<open>None\<close> when the object has no such
  attribute (\<^verbatim>\<open>hasattr\<close> is false).
\<close>

record lambda_context =
  aws_request_id :: "json option"

section \<open>The remote fleet service\<close>

text \<open>
  A call on the boto3 client returns its response, raises \<^verbatim>\<open>ClientError\<close> (with the
  code and message of \<^verbatim>\<open>e.response['Error']\<close>) or raises another exception (kept as
  its \<^verbatim>\<open>str\<close>).
\<close>

datatype 'a remote_result =
    Returned 'a
  | ClientError string string
  | OtherException string

record list_fleets_response =
  FleetIds :: "string list option"
  NextToken :: "string option"

text \<open>A \<^verbatim>\<open>datetime\<close>, represented by the text its \<^verbatim>\<open>isoformat()\<close> returns.\<close>

datatype datetime = Datetime (isoformat: string)

record fleet =
  FleetId :: "string option"
  FleetArn :: "string option"
  FleetType :: "string option"
  EC2InstanceType :: "string option"
  BuildId :: "string option"
  Status :: "string option"
  Description :: "string option"
  Name :: "string option"
  CreationTime :: "datetime option"
  TerminationTime :: "datetime option"

record describe_fleet_attributes_response =
  FleetAttributes :: "fleet list option"

record gamelift_client =
  list_fleets :: "list_fleets_response remote_result"
  describe_fleet_attributes :: "json list \<Rightarrow> describe_fleet_attributes_response remote_result"

text \<open>The remote calls an invocation issues, in order.\<close>

datatype remote_call = ListFleets | DescribeFleetAttributes "json list"

section \<open>What the handlers take from their runtime\<close>

text \<open>
  \<open>environ\<close> is \<^verbatim>\<open>os.environ\<close>. \<open>boto3_client\<close> is \<^verbatim>\<open>boto3.client\<close>: \<open>Inl\<close> holds
  the \<^verbatim>\<open>str\<close> of the exception it raised. \<open>json_loads\<close> is \<^verbatim>\<open>json.loads\<close> on a
  string: it returns the decoded value, raises \<^verbatim>\<open>JSONDecodeError\<close>, or raises
  another exception. \<open>str_of_value\<close> is the text an f-string inserts for a number, a
  list or a dict.
\<close>

datatype loads_result =
    Loaded json
  | JSONDecodeError
  | LoadsRaised py_exception

record runtime =
  environ :: "string \<rightharpoonup> string"
  boto3_client :: "string \<Rightarrow> string + gamelift_client"
  json_loads :: "string \<Rightarrow> loads_result"
  str_of_value :: "json \<Rightarrow> string"

definition environ_get :: "runtime \<Rightarrow> string \<Rightarrow> string \<Rightarrow> string" where
  "environ_get rt k dflt = (case environ rt k of Some v \<Rightarrow> v | None \<Rightarrow> dflt)"

text \<open>The text an f-string inserts for \<^verbatim>\<open>{value}\<close>.\<close>

definition format_value :: "runtime \<Rightarrow> json \<Rightarrow> string" where
  "format_value rt v =
     (case v of
        JStr s \<Rightarrow> s
      | JNull \<Rightarrow> ''None''
      | JBool b \<Rightarrow> (if b then ''True'' else ''False'')
      | _ \<Rightarrow> str_of_value rt v)"

text \<open>
  \<^verbatim>\<open>context.aws_request_id if hasattr(context, 'aws_request_id') else 'N/A'\<close>
\<close>

definition request_id :: "lambda_context \<Rightarrow> json" where
  "request_id ctx = (case aws_request_id ctx of Some v \<Rightarrow> v | None \<Rightarrow> JStr ''N/A'')"

definition cors_headers :: "(string \<times> string) list" where
  "cors_headers =
     [(''Content-Type'', ''application/json''),
      (''Access-Control-Allow-Origin'', ''*''),
      (''Access-Control-Allow-Headers'', ''Content-Type,X-Amz-Date,Authorization,X-Api-Key''),
      (''Access-Control-Allow-Methods'', ''GET,POST,OPTIONS'')]"

text \<open>
  The body of a POST, in both handlers:
  \<^verbatim>\<open>
  body = event.get('body', '{}')
  try:
      body_data = json.loads(body) if isinstance(body, str) else body
  except json.JSONDecodeError:
      body_data = {}
  \<close>
  Only \<^verbatim>\<open>JSONDecodeError\<close> is caught; any other exception of \<^verbatim>\<open>json.loads\<close>
  leaves the handler.
\<close>

definition parse_body :: "runtime \<Rightarrow> pydict \<Rightarrow> py_exception + json" where
  "parse_body rt event =
     (let body = dict_get event ''body'' (JStr ''{}'')
      in case body of
           JStr s \<Rightarrow>
             (case json_loads rt s of
                Loaded v \<Rightarrow> Inr v
              | JSONDecodeError \<Rightarrow> Inr (JObj [])
              | LoadsRaised exn \<Rightarrow> Inl exn)
         | _ \<Rightarrow> Inr body)"

section \<open>gamelift_handler.py\<close>

text \<open>
  \<^verbatim>\<open>create_error_response(status_code, message, details, context)\<close>. The details are
  added under \<^verbatim>\<open>if details:\<close>, which \<open>None\<close> and the empty string both fail.
\<close>

definition create_error_response ::
  "int \<Rightarrow> string \<Rightarrow> string option \<Rightarrow> lambda_context \<Rightarrow> response" where
  "create_error_response status_code message details ctx =
     (let error_body =
            [(''status'', JStr ''error''),
             (''message'', JStr message),
             (''timestamp'', request_id ctx)];
          error_body =
            (case details of
               None \<Rightarrow> error_body
             | Some d \<Rightarrow> if d = [] then error_body else error_body @ [(''details'', JStr d)])
      in \<lparr>statusCode = status_code,
          headers = cors_headers,
          body = Json_dumps (JObj error_body) (Some 2)\<rparr>)"

text \<open>
  \<^verbatim>\<open>handle_list_fleets(gamelift_client, context)\<close>. The whole body sits in a
  \<^verbatim>\<open>try\<close> whose handlers turn \<^verbatim>\<open>ClientError\<close> and every other exception into a
  500 response. The first component of the result is the remote calls issued.
\<close>

definition handle_list_fleets ::
  "gamelift_client \<Rightarrow> lambda_context \<Rightarrow> remote_call list \<times> response" where
  "handle_list_fleets client ctx =
     ([ListFleets],
      case list_fleets client of
        Returned resp \<Rightarrow>
          (let fleet_ids = (case FleetIds resp of Some ids \<Rightarrow> ids | None \<Rightarrow> []);
               next_token = (case NextToken resp of Some t \<Rightarrow> JStr t | None \<Rightarrow> JNull);
               response_body =
                 [(''status'', JStr ''success''),
                  (''operation'', JStr ''list_fleets''),
                  (''fleet_count'', JInt (int (length fleet_ids))),
                  (''fleets'', JArr (map JStr fleet_ids)),
                  (''next_token'', next_token),
                  (''timestamp'', request_id ctx)]
           in \<lparr>statusCode = 200,
               headers = cors_headers,
               body = Json_dumps (JObj response_body) (Some 2)\<rparr>)
      | ClientError error_code error_message \<Rightarrow>
          create_error_response 500 (''GameLift API error: '' @ error_code)
            (Some error_message) ctx
      | OtherException e \<Rightarrow>
          create_error_response 500 ''Unexpected error listing fleets'' (Some e) ctx)"

definition opt_str :: "string option \<Rightarrow> json" where
  "opt_str x = (case x of Some s \<Rightarrow> JStr s | None \<Rightarrow> JNull)"

definition opt_isoformat :: "datetime option \<Rightarrow> json" where
  "opt_isoformat x = (case x of Some t \<Rightarrow> JStr (isoformat t) | None \<Rightarrow> JNull)"

definition convert_fleet_to_dict :: "fleet \<Rightarrow> json" where
  "convert_fleet_to_dict f =
     JObj [(''FleetId'', opt_str (FleetId f)),
           (''FleetArn'', opt_str (FleetArn f)),
           (''FleetType'', opt_str (FleetType f)),
           (''EC2InstanceType'', opt_str (EC2InstanceType f)),
           (''BuildId'', opt_str (BuildId f)),
           (''Status'', opt_str (Status f)),
           (''Description'', opt_str (Description f)),
           (''Name'', opt_str (Name f)),
           (''CreationTime'', opt_isoformat (CreationTime f)),
           (''TerminationTime'', opt_isoformat (TerminationTime f))]"

text \<open>
  \<^verbatim>\<open>handle_describe_fleet(gamelift_client, fleet_id, context)\<close>; the runtime is passed
  for the f-string of the 404 message.
\<close>

definition handle_describe_fleet ::
  "runtime \<Rightarrow> gamelift_client \<Rightarrow> json \<Rightarrow> lambda_context \<Rightarrow> remote_call list \<times> response" where
  "handle_describe_fleet rt client fleet_id ctx =
     ([DescribeFleetAttributes [fleet_id]],
      case describe_fleet_attributes client [fleet_id] of
        Returned resp \<Rightarrow>
          (let fleet_attributes = (case FleetAttributes resp of Some fs \<Rightarrow> fs | None \<Rightarrow> [])
           in case fleet_attributes of
                [] \<Rightarrow>
                  create_error_response 404 (''Fleet not found: '' @ format_value rt fleet_id)
                    None ctx
              | fleet # _ \<Rightarrow>
                  (let response_body =
                         [(''status'', JStr ''success''),
                          (''operation'', JStr ''describe_fleet''),
                          (''fleet'', convert_fleet_to_dict fleet),
                          (''timestamp'', request_id ctx)]
                   in \<lparr>statusCode = 200,
                       headers = cors_headers,
                       body = Json_dumps (JObj response_body) (Some 2)\<rparr>))
      | ClientError error_code error_message \<Rightarrow>
          create_error_response 500 (''GameLift API error: '' @ error_code)
            (Some error_message) ctx
      | OtherException e \<Rightarrow>
          create_error_response 500 ''Unexpected error describing fleet'' (Some e) ctx)"

text \<open>
  \<^verbatim>\<open>lambda_handler(event, context)\<close> of gamelift_handler.py. The result is the remote
  calls issued and either the response returned or the exception that leaves the
  handler. The reads of \<^verbatim>\<open>ENVIRONMENT\<close>, \<^verbatim>\<open>PROJECT\<close>, \<^verbatim>\<open>AWS_REGION\<close> and of the
  event's path are not used by the source afterwards and are left out.
\<close>

definition gamelift_handler_lambda_handler ::
  "runtime \<Rightarrow> pydict \<Rightarrow> lambda_context \<Rightarrow> remote_call list \<times> (py_exception + response)" where
  "gamelift_handler_lambda_handler rt event ctx =
     (let http_method = dict_get event ''httpMethod'' (JStr ''GET'')
      in case boto3_client rt ''gamelift'' of
           Inl e \<Rightarrow>
             ([], Inr (create_error_response 500 ''Failed to initialize GameLift client''
                         (Some e) ctx))
         | Inr client \<Rightarrow>
             if http_method = JStr ''GET'' then
               apsnd Inr (handle_list_fleets client ctx)
             else if http_method = JStr ''POST'' then
               (case parse_body rt event of
                  Inl exn \<Rightarrow> ([], Inl exn)
                | Inr body_data \<Rightarrow>
                   (case obj_get body_data ''action'' (JStr ''list_fleets'') of
                      Inl exn \<Rightarrow> ([], Inl exn)
                    | Inr action \<Rightarrow>
                       if action = JStr ''list_fleets'' then
                         apsnd Inr (handle_list_fleets client ctx)
                       else if action = JStr ''describe_fleet'' then
                         (case obj_get body_data ''fleet_id'' JNull of
                            Inl exn \<Rightarrow> ([], Inl exn)
                          | Inr fleet_id \<Rightarrow>
                              if truthy fleet_id then
                                apsnd Inr (handle_describe_fleet rt client fleet_id ctx)
                              else
                                ([], Inr (create_error_response 400
                                            ''Missing required parameter: fleet_id'' None ctx)))
                       else
                         ([], Inr (create_error_response 400
                                     (''Unknown action: '' @ format_value rt action) None ctx))))
             else
               ([], Inr (create_error_response 405
                           (''Method '' @ format_value rt http_method @ '' not supported'')
                           None ctx)))"

section \<open>handler.py\<close>

text \<open>
  \<^verbatim>\<open>lambda_handler(event, context)\<close> of handler.py. The result is the response
  returned or the exception that leaves the handler; the one statement that can raise on
  this data is the \<^verbatim>\<open>json.loads\<close> of a POST. \<open>respond\<close> is the \<^verbatim>\<open>return\<close> that
  the three branches share.
\<close>

definition handler_lambda_handler ::
  "runtime \<Rightarrow> pydict \<Rightarrow> lambda_context \<Rightarrow> py_exception + response" where
  "handler_lambda_handler rt event ctx =
     (let environment = environ_get rt ''ENVIRONMENT'' ''unknown'';
          project = environ_get rt ''PROJECT'' ''unknown'';
          http_method = dict_get event ''httpMethod'' (JStr ''GET'');
          path = dict_get event ''path'' (JStr ''/'');
          respond = (\<lambda>response_body status_code.
                       \<lparr>statusCode = status_code,
                        headers = cors_headers,
                        body = Json_dumps (JObj response_body) (Some 2)\<rparr>)
      in if http_method = JStr ''GET'' then
           Inr (respond
                  [(''status'', JStr ''success''),
                   (''message'', JStr ''Python Lambda is running!''),
                   (''environment'', JStr environment),
                   (''project'', JStr project),
                   (''method'', http_method),
                   (''path'', path),
                   (''timestamp'', request_id ctx)] 200)
         else if http_method = JStr ''POST'' then
           (case parse_body rt event of
              Inl exn \<Rightarrow> Inl exn
            | Inr body_data \<Rightarrow>
                Inr (respond
                       [(''status'', JStr ''success''),
                        (''message'', JStr ''POST request received''),
                        (''environment'', JStr environment),
                        (''project'', JStr project),
                        (''received_data'', body_data),
                        (''timestamp'', request_id ctx)] 200))
         else
           Inr (respond
                  [(''status'', JStr ''error''),
                   (''message'',
                      JStr (''Method '' @ format_value rt http_method @ '' not supported'')),
                   (''supported_methods'', JArr [JStr ''GET'', JStr ''POST''])] 405))"

text \<open>\<^verbatim>\<open>health_check(event, context)\<close> of handler.py.\<close>

definition health_check :: "runtime \<Rightarrow> pydict \<Rightarrow> lambda_context \<Rightarrow> response" where
  "health_check rt event ctx =
     \<lparr>statusCode = 200,
      headers = [(''Content-Type'', ''application/json'')],
      body = Json_dumps
               (JObj [(''status'', JStr ''healthy''),
                      (''service'', JStr ''python-lambda''),
                      (''environment'', JStr (environ_get rt ''ENVIRONMENT'' ''unknown''))])
               None\<rparr>"

section \<open>Reading a response\<close>

text \<open>The items of the dict that was serialised into the body, its keys, one field.\<close>

definition body_items :: "response \<Rightarrow> pydict" where
  "body_items r = (case body r of Json_dumps (JObj kvs) _ \<Rightarrow> kvs | _ \<Rightarrow> [])"

definition body_keys :: "response \<Rightarrow> string list" where
  "body_keys r = map fst (body_items r)"

definition body_field :: "response \<Rightarrow> string \<Rightarrow> json option" where
  "body_field r k = map_of (body_items r) k"

section \<open>Fixtures\<close>

text \<open>
  The context of tests/test_handler.py, a decoder that knows the documents of the
  scenarios and rejects every other text, a client whose account holds two fleets and
  that finds no attributes for any id, and the runtime made of them. The scenarios
  format strings only, so the stub for \<open>str_of_value\<close> is never consulted by them.
\<close>

definition mock_context :: lambda_context where
  "mock_context = \<lparr>aws_request_id = Some (JStr ''test-request-id-12345'')\<rparr>"

definition mock_json_loads :: "string \<Rightarrow> loads_result" where
  \<open>mock_json_loads s =
     (case map_of
        [(''{}'', JObj []),
         (''[]'', JArr []),
         (''{"action":"unknown_action"}'', JObj [(''action'', JStr ''unknown_action'')]),
         (''{"action":"describe_fleet"}'', JObj [(''action'', JStr ''describe_fleet'')]),
         (''{"action":"describe_fleet","fleet_id":"fleet-123"}'',
            JObj [(''action'', JStr ''describe_fleet''), (''fleet_id'', JStr ''fleet-123'')])]
        s of
        Some v \<Rightarrow> Loaded v
      | None \<Rightarrow> JSONDecodeError)\<close>

definition mock_client :: gamelift_client where
  "mock_client =
     \<lparr>list_fleets = Returned \<lparr>FleetIds = Some [''fleet-1'', ''fleet-2''], NextToken = None\<rparr>,
      describe_fleet_attributes = (\<lambda>ids. Returned \<lparr>FleetAttributes = Some []\<rparr>)\<rparr>"

definition mock_runtime :: runtime where
  "mock_runtime =
     \<lparr>environ = [''ENVIRONMENT'' \<mapsto> ''production''],
      boto3_client = (\<lambda>service. Inr mock_client),
      json_loads = mock_json_loads,
      str_of_value = (\<lambda>v. ''?'')\<rparr>"

text \<open>The same runtime on a host without a configured region: no client can be made.\<close>

definition no_region_runtime :: runtime where
  "no_region_runtime =
     mock_runtime\<lparr>boto3_client := (\<lambda>service. Inl ''You must specify a region.'')\<rparr>"

section \<open>Auxiliary facts\<close>

lemmas response_reading = body_items_def body_keys_def body_field_def

lemmas mock_defs = mock_runtime_def mock_client_def mock_context_def mock_json_loads_def

lemma error_response_statusCode:
  "statusCode (create_error_response sc msg details ctx) = sc"
  by (simp add: create_error_response_def Let_def)

lemma error_response_status_field:
  "body_field (create_error_response sc msg details ctx) ''status'' = Some (JStr ''error'')"
  by (simp add: create_error_response_def response_reading Let_def split: option.split)

lemma error_response_message_field:
  "body_field (create_error_response sc msg details ctx) ''message'' = Some (JStr msg)"
  by (simp add: create_error_response_def response_reading Let_def split: option.split)

lemma event_method:
  "map_of event ''httpMethod'' = Some m \<Longrightarrow> dict_get event ''httpMethod'' dflt = m"
  by (simp add: dict_get_def)

lemma sublist_after_prefix: "sublist xs (ps @ xs)"
  using sublist_appendI [of xs ps "[]"] by simp



lemma parse_body_loaded:
  "map_of event ''body'' = Some (JStr s) \<Longrightarrow> json_loads rt s = Loaded v
   \<Longrightarrow> parse_body rt event = Inr v"
  by (simp add: parse_body_def dict_get_def)

lemma parse_body_raised:
  "map_of event ''body'' = Some (JStr s) \<Longrightarrow> json_loads rt s = LoadsRaised exn
   \<Longrightarrow> parse_body rt event = Inl exn"
  by (simp add: parse_body_def dict_get_def)



text \<open>The fleet handler when no client could be constructed, whatever the request.\<close>

lemma no_client_500:
  assumes "boto3_client rt ''gamelift'' = Inl e"
  shows "gamelift_handler_lambda_handler rt event ctx =
           ([], Inr (create_error_response 500 ''Failed to initialize GameLift client''
                       (Some e) ctx))"
  using assms by (simp add: gamelift_handler_lambda_handler_def)

text \<open>The dispatch of a POST whose body data is a dict.\<close>

lemma post_dispatch:
  assumes "boto3_client rt ''gamelift'' = Inr client"
    and "dict_get event ''httpMethod'' (JStr ''GET'') = JStr ''POST''"
    and "parse_body rt event = Inr (JObj d)"
  shows "gamelift_handler_lambda_handler rt event ctx =
           (let action = dict_get d ''action'' (JStr ''list_fleets'')
            in if action = JStr ''list_fleets'' then apsnd Inr (handle_list_fleets client ctx)
               else if action = JStr ''describe_fleet'' then
                 (let fleet_id = dict_get d ''fleet_id'' JNull
                  in if truthy fleet_id then
                       apsnd Inr (handle_describe_fleet rt client fleet_id ctx)
                     else ([], Inr (create_error_response 400
                                      ''Missing required parameter: fleet_id'' None ctx)))
               else ([], Inr (create_error_response 400
                                (''Unknown action: '' @ format_value rt action) None ctx)))"
  using assms by (simp add: gamelift_handler_lambda_handler_def obj_get_def Let_def)

text \<open>
  A POST whose body data is anything but a dict: the lookup of the action raises, outside
  every \<^verbatim>\<open>try\<close> of the module, before any remote call.
\<close>

lemma post_non_dict_raises:
  assumes "boto3_client rt ''gamelift'' = Inr client"
    and "dict_get event ''httpMethod'' (JStr ''GET'') = JStr ''POST''"
    and "parse_body rt event = Inr b"
    and "\<forall>d. b \<noteq> JObj d"
  shows "\<exists>msg. gamelift_handler_lambda_handler rt event ctx = ([], Inl (AttributeError msg))"
  using assms
  by (cases b) (simp_all add: gamelift_handler_lambda_handler_def obj_get_def)

text \<open>
  A POST on whose body the decoder raises something other than \<^verbatim>\<open>JSONDecodeError\<close>:
  the exception leaves both handlers.
\<close>

lemma post_loads_raised_escapes:
  assumes "dict_get event ''httpMethod'' (JStr ''GET'') = JStr ''POST''"
    and "parse_body rt event = Inl exn"
  shows "handler_lambda_handler rt event ctx = Inl exn"
    and "boto3_client rt ''gamelift'' = Inr client
         \<Longrightarrow> gamelift_handler_lambda_handler rt event ctx = ([], Inl exn)"
  using assms
  by (simp_all add: handler_lambda_handler_def gamelift_handler_lambda_handler_def Let_def)

lemma handle_describe_fleet_empty:
  assumes "describe_fleet_attributes client [fleet_id] = Returned resp"
    and "FleetAttributes resp \<in> {None, Some []}"
  shows "handle_describe_fleet rt client fleet_id ctx =
           ([DescribeFleetAttributes [fleet_id]],
            create_error_response 404 (''Fleet not found: '' @ format_value rt fleet_id)
              None ctx)"
  using assms by (auto simp add: handle_describe_fleet_def)

section \<open>The claims\<close>

subsection \<open>C1: the body of a POST\<close>




subsection \<open>C2: an exception that leaves the fleet handler\<close>

text \<open>
  Claim C2 says that the fleet handler returns a response envelope for every event and
  context, no exception reaching the hosting runtime. The theorem evaluates the handler
  on a POST whose body is the JSON text \<^verbatim>\<open>[]\<close>: the outcome is no response but an
  \<^verbatim>\<open>AttributeError\<close>, raised by the lookup of the action on a list.
\<close>

theorem post_array_body_escapes:
  "snd (gamelift_handler_lambda_handler mock_runtime
          [(''httpMethod'', JStr ''POST''), (''path'', JStr ''/fleets''), (''body'', JStr ''[]'')]
          mock_context)
   = Inl (AttributeError ([CHR 0x27] @ ''list'' @ [CHR 0x27]
            @ '' object has no attribute '' @ [CHR 0x27] @ ''get'' @ [CHR 0x27]))"
  by (simp add: gamelift_handler_lambda_handler_def parse_body_def
        obj_get_def dict_get_def mock_defs)

subsection \<open>C3: the status code of an unknown action\<close>

text \<open>
  Claim C3 says that a POST whose action is neither \<^verbatim>\<open>list_fleets\<close> nor
  \<^verbatim>\<open>describe_fleet\<close> is answered with status code 405. On the action
  \<^verbatim>\<open>delete_fleet\<close> the handler answers 400, not 405.
\<close>

theorem unknown_action_405_counterexample:
  "snd (gamelift_handler_lambda_handler mock_runtime
          [(''httpMethod'', JStr ''POST''), (''body'', JObj [(''action'', JStr ''delete_fleet'')])]
          mock_context)
   = Inr (create_error_response 400 ''Unknown action: delete_fleet'' None mock_context)
   \<and> statusCode (create_error_response 400 ''Unknown action: delete_fleet'' None mock_context)
       \<noteq> 405"
  by (simp add: gamelift_handler_lambda_handler_def parse_body_def
        obj_get_def dict_get_def format_value_def error_response_statusCode mock_defs)

text \<open>
  Claim C3 as amended: in an invocation whose client was constructed, every POST whose
  body data is a mapping with an \<^verbatim>\<open>action\<close> other than \<^verbatim>\<open>list_fleets\<close> and
  \<^verbatim>\<open>describe_fleet\<close> is answered, without a remote call, by the error envelope with
  status code 400 (the code of a client request error) and the message
  \<^verbatim>\<open>Unknown action: <action>\<close>.
\<close>

theorem unknown_action_bad_request:
  assumes "boto3_client rt ''gamelift'' = Inr client"
    and "map_of event ''httpMethod'' = Some (JStr ''POST'')"
    and "parse_body rt event = Inr (JObj d)"
    and "map_of d ''action'' = Some action"
    and "action \<noteq> JStr ''list_fleets''"
    and "action \<noteq> JStr ''describe_fleet''"
  shows "\<exists>r. gamelift_handler_lambda_handler rt event ctx = ([], Inr r)
           \<and> statusCode r = 400
           \<and> body_field r ''status'' = Some (JStr ''error'')
           \<and> body_field r ''message''
               = Some (JStr (''Unknown action: '' @ format_value rt action))"
  using assms
  by (simp add: post_dispatch [OF assms(1) _ assms(3)] event_method dict_get_def
        error_response_statusCode error_response_status_field error_response_message_field)

theorem unknown_action_bad_request_witness:
  "\<exists>r. gamelift_handler_lambda_handler mock_runtime
          [(''httpMethod'', JStr ''POST''),
           (''body'', JObj [(''action'', JStr ''create_fleet''), (''fleet_id'', JStr ''fleet-9'')])]
          mock_context
        = ([], Inr r)
      \<and> statusCode r = 400
      \<and> body_field r ''status'' = Some (JStr ''error'')
      \<and> body_field r ''message'' = Some (JStr ''Unknown action: create_fleet'')"
  using unknown_action_bad_request [of mock_runtime mock_client
      "[(''httpMethod'', JStr ''POST''),
        (''body'', JObj [(''action'', JStr ''create_fleet''), (''fleet_id'', JStr ''fleet-9'')])]"
      "[(''action'', JStr ''create_fleet''), (''fleet_id'', JStr ''fleet-9'')]"
      "JStr ''create_fleet''" mock_context]
  by (simp add: parse_body_def dict_get_def format_value_def mock_runtime_def)

subsection \<open>C4: the unknown-action scenario\<close>

text \<open>
  Claim C4 says that the fleet handler, invoked with method POST and the body
  \<^verbatim>\<open>{"action":"unknown_action"}\<close>, answers with status code 400 and a message that
  contains \<^verbatim>\<open>unknown_action\<close>. The client is constructed before the request is looked
  at: on a host where that fails, the same invocation is answered with status code 500
  and the message \<^verbatim>\<open>Failed to initialize GameLift client\<close>.
\<close>

theorem unknown_action_scenario_counterexample:
  \<open>snd (gamelift_handler_lambda_handler no_region_runtime
          [(''httpMethod'', JStr ''POST''), (''body'', JStr ''{"action":"unknown_action"}'')]
          mock_context)
   = Inr (create_error_response 500 ''Failed to initialize GameLift client''
            (Some ''You must specify a region.'') mock_context)
   \<and> statusCode (create_error_response 500 ''Failed to initialize GameLift client''
                   (Some ''You must specify a region.'') mock_context) \<noteq> 400
   \<and> body_field (create_error_response 500 ''Failed to initialize GameLift client''
                   (Some ''You must specify a region.'') mock_context) ''message''
       = Some (JStr ''Failed to initialize GameLift client'')\<close>
  by (simp add: no_client_500 no_region_runtime_def mock_runtime_def
        error_response_statusCode error_response_message_field)

text \<open>
  Claim C4 as amended: for the fleet handler invoked, its client constructed, with method
  POST and the body \<^verbatim>\<open>{"action":"unknown_action"}\<close>, the response has status code 400
  and its message contains \<^verbatim>\<open>unknown_action\<close>. In general, for every body text that
  decodes to a mapping whose action is neither \<^verbatim>\<open>list_fleets\<close> nor
  \<^verbatim>\<open>describe_fleet\<close>, the message is \<^verbatim>\<open>Unknown action: \<close> followed by the action
  as the f-string formats it, which is the action itself when it is a string. The
  scenario is the instance evaluated after the theorem.
\<close>

theorem unknown_action_scenario:
  assumes "boto3_client rt ''gamelift'' = Inr client"
    and "map_of event ''httpMethod'' = Some (JStr ''POST'')"
    and "map_of event ''body'' = Some (JStr s)"
    and "json_loads rt s = Loaded (JObj d)"
    and "map_of d ''action'' = Some action"
    and "action \<noteq> JStr ''list_fleets''"
    and "action \<noteq> JStr ''describe_fleet''"
  shows "\<exists>r msg. snd (gamelift_handler_lambda_handler rt event ctx) = Inr r
           \<and> statusCode r = 400
           \<and> body_field r ''message'' = Some (JStr msg)
           \<and> msg = ''Unknown action: '' @ format_value rt action
           \<and> sublist (format_value rt action) msg
           \<and> (\<forall>a. action = JStr a \<longrightarrow> msg = ''Unknown action: '' @ a \<and> sublist a msg)"
proof -
  have parsed: "parse_body rt event = Inr (JObj d)"
    using assms(3,4) by (rule parse_body_loaded)
  have "gamelift_handler_lambda_handler rt event ctx =
          ([], Inr (create_error_response 400
                      (''Unknown action: '' @ format_value rt action) None ctx))"
    using assms(2,5,6,7)
    by (simp add: post_dispatch [OF assms(1) _ parsed] event_method dict_get_def)
  moreover have "sublist (format_value rt action)
                   (''Unknown action: '' @ format_value rt action)"
    by (rule sublist_after_prefix)
  moreover have "format_value rt (JStr a) = a" for a
    by (simp add: format_value_def)
  ultimately show ?thesis
    by (auto simp add: error_response_statusCode error_response_message_field)
qed

theorem unknown_action_scenario_witness:
  \<open>\<exists>r msg. snd (gamelift_handler_lambda_handler mock_runtime
                  [(''httpMethod'', JStr ''POST''),
                   (''body'', JStr ''{"action":"unknown_action"}'')] mock_context) = Inr r
      \<and> statusCode r = 400
      \<and> body_field r ''message'' = Some (JStr msg)
      \<and> msg = ''Unknown action: unknown_action''
      \<and> sublist ''unknown_action'' msg\<close>
  using unknown_action_scenario [of mock_runtime mock_client
      \<open>[(''httpMethod'', JStr ''POST''), (''body'', JStr ''{"action":"unknown_action"}'')]\<close>
      \<open>''{"action":"unknown_action"}''\<close>
      "[(''action'', JStr ''unknown_action'')]" "JStr ''unknown_action''" mock_context]
  by (simp add: mock_runtime_def mock_json_loads_def format_value_def)

subsection \<open>C5: describe_fleet without a fleet id\<close>

text \<open>
  Claim C5 says that every POST with action \<^verbatim>\<open>describe_fleet\<close> whose body carries no
  \<^verbatim>\<open>fleet_id\<close> is answered with status 400 and the message
  \<^verbatim>\<open>Missing required parameter: fleet_id\<close>, without a remote call. On a host where
  the client cannot be constructed such a request is answered with status code 500,
  before its body is read.
\<close>

theorem describe_fleet_missing_fleet_id_counterexample:
  \<open>snd (gamelift_handler_lambda_handler no_region_runtime
          [(''httpMethod'', JStr ''POST''), (''path'', JStr ''/fleets''),
           (''body'', JStr ''{"action":"describe_fleet"}'')] mock_context)
   = Inr (create_error_response 500 ''Failed to initialize GameLift client''
            (Some ''You must specify a region.'') mock_context)
   \<and> statusCode (create_error_response 500 ''Failed to initialize GameLift client''
                   (Some ''You must specify a region.'') mock_context) \<noteq> 400\<close>
  by (simp add: no_client_500 no_region_runtime_def mock_runtime_def error_response_statusCode)

text \<open>
  Claim C5 as amended: for every POST request to the fleet handler with action
  \<^verbatim>\<open>describe_fleet\<close> whose body carries no \<^verbatim>\<open>fleet_id\<close>, no remote call is issued
  (the list of calls is empty), and when the client was constructed the handler returns
  status 400 with status \<^verbatim>\<open>error\<close> and the message
  \<^verbatim>\<open>Missing required parameter: fleet_id\<close>.
\<close>

theorem describe_fleet_missing_fleet_id:
  assumes "map_of event ''httpMethod'' = Some (JStr ''POST'')"
    and "parse_body rt event = Inr (JObj d)"
    and "map_of d ''action'' = Some (JStr ''describe_fleet'')"
    and "map_of d ''fleet_id'' = None"
  shows "fst (gamelift_handler_lambda_handler rt event ctx) = []
       \<and> (\<forall>client. boto3_client rt ''gamelift'' = Inr client \<longrightarrow>
            (\<exists>r. gamelift_handler_lambda_handler rt event ctx = ([], Inr r)
               \<and> statusCode r = 400
               \<and> body_field r ''status'' = Some (JStr ''error'')
               \<and> body_field r ''message''
                   = Some (JStr ''Missing required parameter: fleet_id'')))"
proof -
  have with_client: "gamelift_handler_lambda_handler rt event ctx =
          ([], Inr (create_error_response 400 ''Missing required parameter: fleet_id''
                      None ctx))"
    if "boto3_client rt ''gamelift'' = Inr client" for client
    using assms(1,3,4)
    by (simp add: post_dispatch [OF that _ assms(2)] event_method dict_get_def)
  have "fst (gamelift_handler_lambda_handler rt event ctx) = []"
  proof (cases "boto3_client rt ''gamelift''")
    case (Inl e)
    then show ?thesis by (simp add: no_client_500)
  next
    case (Inr client)
    then show ?thesis by (simp add: with_client)
  qed
  then show ?thesis
    by (simp add: with_client error_response_statusCode error_response_status_field
          error_response_message_field)
qed

theorem describe_fleet_missing_fleet_id_witness:
  \<open>fst (gamelift_handler_lambda_handler mock_runtime
          [(''httpMethod'', JStr ''POST''), (''path'', JStr ''/fleets''),
           (''body'', JStr ''{"action":"describe_fleet"}'')] mock_context) = []
   \<and> (\<exists>r. gamelift_handler_lambda_handler mock_runtime
          [(''httpMethod'', JStr ''POST''), (''path'', JStr ''/fleets''),
           (''body'', JStr ''{"action":"describe_fleet"}'')] mock_context = ([], Inr r)
      \<and> statusCode r = 400
      \<and> body_field r ''status'' = Some (JStr ''error'')
      \<and> body_field r ''message'' = Some (JStr ''Missing required parameter: fleet_id''))\<close>
  using describe_fleet_missing_fleet_id [of
      \<open>[(''httpMethod'', JStr ''POST''), (''path'', JStr ''/fleets''),
        (''body'', JStr ''{"action":"describe_fleet"}'')]\<close>
      mock_runtime "[(''action'', JStr ''describe_fleet'')]" mock_context]
  by (simp add: parse_body_def dict_get_def mock_runtime_def mock_json_loads_def)

subsection \<open>C6: describe_fleet for a fleet the service does not know\<close>

text \<open>
  Claim C6: when the describe-fleet-attributes call succeeds and returns an empty
  collection of records (or none at all), the fleet handler answers with status code 404,
  status \<^verbatim>\<open>error\<close> and a message that contains the requested fleet id.
\<close>

theorem describe_fleet_not_found:
  assumes "boto3_client rt ''gamelift'' = Inr client"
    and "map_of event ''httpMethod'' = Some (JStr ''POST'')"
    and "parse_body rt event = Inr (JObj d)"
    and "map_of d ''action'' = Some (JStr ''describe_fleet'')"
    and "map_of d ''fleet_id'' = Some fleet_id"
    and "truthy fleet_id"
    and "describe_fleet_attributes client [fleet_id] = Returned resp"
    and "FleetAttributes resp \<in> {None, Some []}"
  shows "\<exists>r msg. gamelift_handler_lambda_handler rt event ctx
                   = ([DescribeFleetAttributes [fleet_id]], Inr r)
           \<and> statusCode r = 404
           \<and> body_field r ''status'' = Some (JStr ''error'')
           \<and> body_field r ''message'' = Some (JStr msg)
           \<and> msg = ''Fleet not found: '' @ format_value rt fleet_id
           \<and> sublist (format_value rt fleet_id) msg"
proof -
  have "gamelift_handler_lambda_handler rt event ctx =
          ([DescribeFleetAttributes [fleet_id]],
           Inr (create_error_response 404 (''Fleet not found: '' @ format_value rt fleet_id)
                  None ctx))"
    using assms(2,4,5,6)
    by (simp add: post_dispatch [OF assms(1) _ assms(3)] event_method dict_get_def
          handle_describe_fleet_empty [OF assms(7,8)])
  moreover have "sublist (format_value rt fleet_id)
                   (''Fleet not found: '' @ format_value rt fleet_id)"
    by (rule sublist_after_prefix)
  ultimately show ?thesis
    by (simp add: error_response_statusCode error_response_status_field
          error_response_message_field)
qed

theorem describe_fleet_not_found_witness:
  \<open>\<exists>r msg. gamelift_handler_lambda_handler mock_runtime
              [(''httpMethod'', JStr ''POST''),
               (''body'', JStr ''{"action":"describe_fleet","fleet_id":"fleet-123"}'')]
              mock_context
            = ([DescribeFleetAttributes [JStr ''fleet-123'']], Inr r)
      \<and> statusCode r = 404
      \<and> body_field r ''status'' = Some (JStr ''error'')
      \<and> body_field r ''message'' = Some (JStr msg)
      \<and> msg = ''Fleet not found: fleet-123''
      \<and> sublist ''fleet-123'' msg\<close>
  using describe_fleet_not_found [of mock_runtime mock_client
      \<open>[(''httpMethod'', JStr ''POST''),
        (''body'', JStr ''{"action":"describe_fleet","fleet_id":"fleet-123"}'')]\<close>
      "[(''action'', JStr ''describe_fleet''), (''fleet_id'', JStr ''fleet-123'')]"
      "JStr ''fleet-123''" "\<lparr>FleetAttributes = Some []\<rparr>" mock_context]
  by (simp add: parse_body_def dict_get_def format_value_def
        mock_runtime_def mock_json_loads_def mock_client_def)

subsection \<open>C7: GET lists the fleets\<close>

text \<open>
  Claim C7: for a GET request (the method given or defaulted) whose list-fleets call
  succeeds, the response has status code 200 and a body with status \<^verbatim>\<open>success\<close>,
  operation \<^verbatim>\<open>list_fleets\<close>, \<^verbatim>\<open>fleets\<close> the ids in the order the service
  returned them, \<^verbatim>\<open>fleet_count\<close> their number, and \<^verbatim>\<open>next_token\<close> null when the
  service gave no continuation token.
\<close>

theorem get_lists_fleets:
  assumes "boto3_client rt ''gamelift'' = Inr client"
    and "dict_get event ''httpMethod'' (JStr ''GET'') = JStr ''GET''"
    and "list_fleets client = Returned resp"
    and "ids = (case FleetIds resp of Some xs \<Rightarrow> xs | None \<Rightarrow> [])"
  shows "\<exists>r. gamelift_handler_lambda_handler rt event ctx = ([ListFleets], Inr r)
           \<and> statusCode r = 200
           \<and> body_field r ''status'' = Some (JStr ''success'')
           \<and> body_field r ''operation'' = Some (JStr ''list_fleets'')
           \<and> body_field r ''fleets'' = Some (JArr (map JStr ids))
           \<and> body_field r ''fleet_count'' = Some (JInt (int (length ids)))
           \<and> (NextToken resp = None \<longrightarrow> body_field r ''next_token'' = Some JNull)"
  using assms
  by (simp add: gamelift_handler_lambda_handler_def handle_list_fleets_def response_reading
        Let_def)

theorem get_lists_fleets_witness:
  "\<exists>r. gamelift_handler_lambda_handler mock_runtime [(''httpMethod'', JStr ''GET'')] mock_context
          = ([ListFleets], Inr r)
      \<and> statusCode r = 200
      \<and> body_field r ''status'' = Some (JStr ''success'')
      \<and> body_field r ''operation'' = Some (JStr ''list_fleets'')
      \<and> body_field r ''fleets'' = Some (JArr [JStr ''fleet-1'', JStr ''fleet-2''])
      \<and> body_field r ''fleet_count'' = Some (JInt 2)
      \<and> body_field r ''next_token'' = Some JNull"
  using get_lists_fleets [of mock_runtime mock_client "[(''httpMethod'', JStr ''GET'')]"
      "\<lparr>FleetIds = Some [''fleet-1'', ''fleet-2''], NextToken = None\<rparr>"
      "[''fleet-1'', ''fleet-2'']" mock_context]
  by (simp add: dict_get_def mock_runtime_def mock_client_def)

subsection \<open>C8: unsupported methods\<close>

text \<open>
  Claim C8 says that for every request whose method is neither GET nor POST both handlers
  answer with status code 405. The fleet handler constructs its client before it looks at
  the method: on a host where that fails, a DELETE is answered with status code 500.
\<close>

theorem unsupported_method_405_counterexample:
  "snd (gamelift_handler_lambda_handler no_region_runtime
          [(''httpMethod'', JStr ''DELETE''), (''path'', JStr ''/test''), (''body'', JNull)]
          mock_context)
   = Inr (create_error_response 500 ''Failed to initialize GameLift client''
            (Some ''You must specify a region.'') mock_context)
   \<and> statusCode (create_error_response 500 ''Failed to initialize GameLift client''
                   (Some ''You must specify a region.'') mock_context) \<noteq> 405"
  by (simp add: no_client_500 no_region_runtime_def mock_runtime_def error_response_statusCode)

text \<open>
  Claim C8 as amended: for every request whose method is neither GET nor POST, the demo
  handler, and the fleet handler whenever its client was constructed, return status code
  405 with a body whose status is \<^verbatim>\<open>error\<close> and whose message names the unsupported
  method; the body of the demo handler also lists the supported methods GET and POST and,
  not being built by \<^verbatim>\<open>create_error_response\<close>, has neither a \<^verbatim>\<open>timestamp\<close> nor a
  \<^verbatim>\<open>details\<close> field.
\<close>

theorem unsupported_method_405:
  assumes "dict_get event ''httpMethod'' (JStr ''GET'') = m"
    and "m \<noteq> JStr ''GET''"
    and "m \<noteq> JStr ''POST''"
  shows "(\<exists>r. handler_lambda_handler rt event ctx = Inr r
            \<and> statusCode r = 405
            \<and> body_field r ''status'' = Some (JStr ''error'')
            \<and> body_field r ''message''
                = Some (JStr (''Method '' @ format_value rt m @ '' not supported''))
            \<and> body_field r ''supported_methods'' = Some (JArr [JStr ''GET'', JStr ''POST''])
            \<and> body_keys r = [''status'', ''message'', ''supported_methods'']
            \<and> body_field r ''timestamp'' = None
            \<and> body_field r ''details'' = None)
       \<and> (\<forall>client. boto3_client rt ''gamelift'' = Inr client \<longrightarrow>
            (\<exists>r. gamelift_handler_lambda_handler rt event ctx = ([], Inr r)
               \<and> statusCode r = 405
               \<and> body_field r ''status'' = Some (JStr ''error'')
               \<and> body_field r ''message''
                   = Some (JStr (''Method '' @ format_value rt m @ '' not supported''))))"
proof -
  have fleet: "\<exists>r. gamelift_handler_lambda_handler rt event ctx = ([], Inr r)
               \<and> statusCode r = 405
               \<and> body_field r ''status'' = Some (JStr ''error'')
               \<and> body_field r ''message''
                   = Some (JStr (''Method '' @ format_value rt m @ '' not supported''))"
    if "boto3_client rt ''gamelift'' = Inr client" for client
  proof -
    have "gamelift_handler_lambda_handler rt event ctx =
            ([], Inr (create_error_response 405
                        (''Method '' @ format_value rt m @ '' not supported'') None ctx))"
      using assms that by (simp add: gamelift_handler_lambda_handler_def)
    then show ?thesis
      by (simp add: error_response_statusCode error_response_status_field
            error_response_message_field)
  qed
  have "handler_lambda_handler rt event ctx =
          Inr \<lparr>statusCode = 405, headers = cors_headers,
               body = Json_dumps
                        (JObj [(''status'', JStr ''error''),
                               (''message'',
                                  JStr (''Method '' @ format_value rt m @ '' not supported'')),
                               (''supported_methods'', JArr [JStr ''GET'', JStr ''POST''])])
                        (Some 2)\<rparr>"
    using assms by (simp add: handler_lambda_handler_def Let_def)
  then have demo: "\<exists>r. handler_lambda_handler rt event ctx = Inr r
            \<and> statusCode r = 405
            \<and> body_field r ''status'' = Some (JStr ''error'')
            \<and> body_field r ''message''
                = Some (JStr (''Method '' @ format_value rt m @ '' not supported''))
            \<and> body_field r ''supported_methods'' = Some (JArr [JStr ''GET'', JStr ''POST''])
            \<and> body_keys r = [''status'', ''message'', ''supported_methods'']
            \<and> body_field r ''timestamp'' = None
            \<and> body_field r ''details'' = None"
    by (simp add: response_reading)
  from fleet demo show ?thesis by blast
qed

theorem unsupported_method_405_witness:
  "(\<exists>r. handler_lambda_handler mock_runtime
           [(''httpMethod'', JStr ''DELETE''), (''path'', JStr ''/test''), (''body'', JNull)]
           mock_context = Inr r
        \<and> statusCode r = 405
        \<and> body_field r ''status'' = Some (JStr ''error'')
        \<and> body_field r ''message'' = Some (JStr ''Method DELETE not supported'')
        \<and> body_keys r = [''status'', ''message'', ''supported_methods''])
   \<and> (\<exists>r. gamelift_handler_lambda_handler mock_runtime
           [(''httpMethod'', JStr ''DELETE''), (''path'', JStr ''/test''), (''body'', JNull)]
           mock_context = ([], Inr r)
        \<and> statusCode r = 405
        \<and> body_field r ''status'' = Some (JStr ''error'')
        \<and> body_field r ''message'' = Some (JStr ''Method DELETE not supported''))"
  using unsupported_method_405 [of
      "[(''httpMethod'', JStr ''DELETE''), (''path'', JStr ''/test''), (''body'', JNull)]"
      "JStr ''DELETE''" mock_runtime mock_context]
  by (simp add: dict_get_def format_value_def mock_runtime_def) blast

subsection \<open>C9: when the error body carries details\<close>

text \<open>
  Claim C9: the body built by \<^verbatim>\<open>create_error_response\<close> has the key
  \<^verbatim>\<open>details\<close> exactly when the details argument is a non-empty string; for
  \<open>None\<close> and for the empty string its keys are exactly \<^verbatim>\<open>status\<close>,
  \<^verbatim>\<open>message\<close> and \<^verbatim>\<open>timestamp\<close>.
\<close>

theorem error_response_details_key:
  "body_keys (create_error_response sc msg details ctx) =
     (if details = None \<or> details = Some []
      then [''status'', ''message'', ''timestamp'']
      else [''status'', ''message'', ''timestamp'', ''details''])
   \<and> (''details'' \<in> set (body_keys (create_error_response sc msg details ctx)))
       = (\<exists>d. details = Some d \<and> d \<noteq> [])
   \<and> body_field (create_error_response sc msg details ctx) ''details''
       = (if details = Some [] then None else map_option JStr details)"
  by (cases details) (simp_all add: create_error_response_def response_reading Let_def)

subsection \<open>C10: the health check ignores its arguments\<close>

text \<open>
  Claim C10: under the same value of \<^verbatim>\<open>ENVIRONMENT\<close>, \<^verbatim>\<open>health_check\<close> returns the
  same response for any two pairs of event and context: status code 200, the body
  \<^verbatim>\<open>{status: healthy, service: python-lambda, environment: <ENVIRONMENT or unknown>}\<close>
  and \<^verbatim>\<open>Content-Type\<close> as the only header.
\<close>

theorem health_check_independent:
  assumes "environ rt ''ENVIRONMENT'' = environ rt' ''ENVIRONMENT''"
  shows "health_check rt event ctx = health_check rt' event' ctx'
       \<and> statusCode (health_check rt event ctx) = 200
       \<and> headers (health_check rt event ctx) = [(''Content-Type'', ''application/json'')]
       \<and> body (health_check rt event ctx)
           = Json_dumps
               (JObj [(''status'', JStr ''healthy''),
                      (''service'', JStr ''python-lambda''),
                      (''environment'',
                         JStr (case environ rt ''ENVIRONMENT'' of Some e \<Rightarrow> e
                               | None \<Rightarrow> ''unknown''))])
               None"
  using assms by (simp add: health_check_def environ_get_def)

theorem health_check_independent_witness:
  "health_check mock_runtime [(''httpMethod'', JStr ''GET''), (''path'', JStr ''/health'')]
     mock_context
   = health_check (mock_runtime\<lparr>boto3_client := (\<lambda>service. Inl ''no region'')\<rparr>)
       [(''httpMethod'', JStr ''DELETE'')] \<lparr>aws_request_id = None\<rparr>
   \<and> statusCode (health_check mock_runtime
        [(''httpMethod'', JStr ''GET''), (''path'', JStr ''/health'')] mock_context) = 200
   \<and> body (health_check mock_runtime
        [(''httpMethod'', JStr ''GET''), (''path'', JStr ''/health'')] mock_context)
       = Json_dumps
           (JObj [(''status'', JStr ''healthy''),
                  (''service'', JStr ''python-lambda''),
                  (''environment'', JStr ''production'')])
           None"
  using health_check_independent [of mock_runtime
      "mock_runtime\<lparr>boto3_client := (\<lambda>service. Inl ''no region'')\<rparr>"
      "[(''httpMethod'', JStr ''GET''), (''path'', JStr ''/health'')]" mock_context
      "[(''httpMethod'', JStr ''DELETE'')]" "\<lparr>aws_request_id = None\<rparr>"]
  by (simp add: mock_runtime_def health_check_def environ_get_def)

end
